theory Spec2Isabelle
  imports Complex_Main
begin

section \<open>Arrays\<close>

text \<open>
  The notebook computes on numpy arrays. An array is its shape and its elements in
  row-major order, as numpy stores a C-contiguous array. The elements are real numbers:
  the notebook's float32/float64 arithmetic is modelled as exact arithmetic, so rounding
  is not modelled. Where numpy would produce nan or an infinity (a division by zero,
  the square root of a negative number) the model's value is HOL's; the theorems below
  assume \<open>beta > 0\<close> and \<open>gamma > 0\<close>, under which the normalization divides by
  positive numbers only.
\<close>

datatype ndarray = NDArray (shape: "nat list") (flat: "real list")

text \<open>An array holds as many elements as its shape says.\<close>

definition wf_array :: "ndarray \<Rightarrow> bool" where
  "wf_array X = (length (flat X) = prod_list (shape X))"

definition ndim :: "ndarray \<Rightarrow> nat" where
  "ndim X = length (shape X)"

text \<open>\<open>X.shape[0]\<close> and \<open>X.shape[1]\<close> of a two-dimensional array.\<close>

definition nrows :: "ndarray \<Rightarrow> nat" where
  "nrows X = shape X ! 0"

definition ncols :: "ndarray \<Rightarrow> nat" where
  "ncols X = shape X ! 1"

text \<open>\<open>v[i]\<close> of a one-dimensional array and \<open>X[i, j]\<close> of a two-dimensional one.\<close>

definition at1 :: "ndarray \<Rightarrow> nat \<Rightarrow> real" where
  "at1 v i = flat v ! i"

definition at2 :: "ndarray \<Rightarrow> nat \<Rightarrow> nat \<Rightarrow> real" where
  "at2 X i j = flat X ! (i * ncols X + j)"

text \<open>The arrays of shape \<open>(n,)\<close> and \<open>(n, d)\<close> with given elements.\<close>

definition mk1 :: "nat \<Rightarrow> (nat \<Rightarrow> real) \<Rightarrow> ndarray" where
  "mk1 n f = NDArray [n] (map f [0..<n])"

definition mk2 :: "nat \<Rightarrow> nat \<Rightarrow> (nat \<Rightarrow> nat \<Rightarrow> real) \<Rightarrow> ndarray" where
  "mk2 n d f = NDArray [n, d] (concat (map (\<lambda>i. map (f i) [0..<d]) [0..<n]))"

text \<open>The rows of a two-dimensional array, and the array of given rows.\<close>

definition rows :: "ndarray \<Rightarrow> real list list" where
  "rows X = map (\<lambda>i. map (at2 X i) [0..<ncols X]) [0..<nrows X]"

definition of_rows :: "nat \<Rightarrow> nat \<Rightarrow> real list list \<Rightarrow> ndarray" where
  "of_rows n d rs = NDArray [n, d] (concat rs)"

section \<open>The numpy operations the notebook calls\<close>

datatype error = TypeError | IndexError | ValueError | AssertionError | LinAlgError

text \<open>\<open>X.mean(1)\<close>: the mean of every row. (On rows of length 0 numpy gives nan.)\<close>

definition np_mean1 :: "ndarray \<Rightarrow> ndarray" where
  "np_mean1 X = mk1 (nrows X) (\<lambda>i. (\<Sum>j\<leftarrow>[0..<ncols X]. at2 X i j) / real (ncols X))"

text \<open>\<open>X[:, 0]\<close>: the first column; an IndexError when the array has no column.\<close>

definition np_column0 :: "ndarray \<Rightarrow> error + ndarray" where
  "np_column0 X =
     (if ncols X = 0 then Inl IndexError else Inr (mk1 (nrows X) (\<lambda>i. at2 X i 0)))"

text \<open>\<open>v * c\<close>, \<open>v + c\<close> and \<open>np.maximum(v, c)\<close> with a scalar \<open>c\<close>, and \<open>np.sqrt(v)\<close>,
  on a one-dimensional array.\<close>

definition np_mul_scalar :: "ndarray \<Rightarrow> real \<Rightarrow> ndarray" where
  "np_mul_scalar v c = mk1 (nrows v) (\<lambda>i. at1 v i * c)"

definition np_add_scalar :: "ndarray \<Rightarrow> real \<Rightarrow> ndarray" where
  "np_add_scalar v c = mk1 (nrows v) (\<lambda>i. at1 v i + c)"

definition np_maximum :: "ndarray \<Rightarrow> real \<Rightarrow> ndarray" where
  "np_maximum v c = mk1 (nrows v) (\<lambda>i. max (at1 v i) c)"

definition np_sqrt :: "ndarray \<Rightarrow> ndarray" where
  "np_sqrt v = mk1 (nrows v) (\<lambda>i. sqrt (at1 v i))"

text \<open>\<open>X - v[:, None]\<close> and \<open>X / v[:, None]\<close>: row \<open>i\<close> of \<open>X\<close> minus, or divided by,
  \<open>v[i]\<close>, for \<open>v\<close> of shape \<open>(X.shape[0],)\<close>.\<close>

definition np_sub_col :: "ndarray \<Rightarrow> ndarray \<Rightarrow> ndarray" where
  "np_sub_col X v = mk2 (nrows X) (ncols X) (\<lambda>i j. at2 X i j - at1 v i)"

definition np_div_col :: "ndarray \<Rightarrow> ndarray \<Rightarrow> ndarray" where
  "np_div_col X v = mk2 (nrows X) (ncols X) (\<lambda>i j. at2 X i j / at1 v i)"

text \<open>\<open>A * B\<close> on two-dimensional arrays of one shape, and \<open>X.sum(axis=1)\<close>.\<close>

definition np_mul :: "ndarray \<Rightarrow> ndarray \<Rightarrow> ndarray" where
  "np_mul A B = mk2 (nrows A) (ncols A) (\<lambda>i j. at2 A i j * at2 B i j)"

definition np_sum1 :: "ndarray \<Rightarrow> ndarray" where
  "np_sum1 X = mk1 (nrows X) (\<lambda>i. \<Sum>j\<leftarrow>[0..<ncols X]. at2 X i j)"

section \<open>Contrast normalization\<close>

text \<open>
  The hyper-parameters \<open>remove_mean\<close>, \<open>hard_beta\<close>, \<open>beta\<close> and \<open>gamma\<close> are
  module-level variables that the two functions read.
\<close>

record config =
  remove_mean :: bool
  hard_beta :: bool
  beta :: real
  gamma :: real

text \<open>The values the notebook assigns: \<open>True\<close>, \<open>True\<close>, \<open>10.0\<close> and \<open>0.01\<close>.\<close>

definition notebook_config :: config where
  "notebook_config = \<lparr>remove_mean = True, hard_beta = True, beta = 10, gamma = 1 / 100\<rparr>"

text \<open>
  \<open>contrast_normalize\<close> up to \<open>Xc = X - xm[:, None]\<close>: the dimension check, the
  per-row mean (or \<open>X[:, 0] * 0\<close>) and the centering.
\<close>

definition cn_center :: "config \<Rightarrow> ndarray \<Rightarrow> error + ndarray" where
  "cn_center cfg patches =
     (let X = patches in
      if ndim X \<noteq> 2 then Inl TypeError
      else
        case (if remove_mean cfg then Inr (np_mean1 X)
              else case np_column0 X of
                     Inl e \<Rightarrow> Inl e
                   | Inr c \<Rightarrow> Inr (np_mul_scalar c 0)) of
          Inl e \<Rightarrow> Inl e
        | Inr xm \<Rightarrow> Inr (np_sub_col X xm))"

text \<open>\<open>l2 = (Xc * Xc).sum(axis=1)\<close>.\<close>

definition cn_l2 :: "ndarray \<Rightarrow> ndarray" where
  "cn_l2 Xc = np_sum1 (np_mul Xc Xc)"

text \<open>\<open>div2\<close>: \<open>np.maximum(l2, beta)\<close> if \<open>hard_beta\<close>, else \<open>l2 + beta\<close>.\<close>

definition cn_div2 :: "config \<Rightarrow> ndarray \<Rightarrow> ndarray" where
  "cn_div2 cfg l2 =
     (if hard_beta cfg then np_maximum l2 (beta cfg) else np_add_scalar l2 (beta cfg))"

text \<open>
  The whole function. The calls \<open>figure()\<close>, \<open>title(...)\<close> and \<open>hist(l2)\<close> draw a
  histogram and do not change any value; they are left out.
\<close>

definition contrast_normalize :: "config \<Rightarrow> ndarray \<Rightarrow> error + ndarray" where
  "contrast_normalize cfg patches =
     (case cn_center cfg patches of
        Inl e \<Rightarrow> Inl e
      | Inr Xc \<Rightarrow>
          (let l2 = cn_l2 Xc;
               div2 = cn_div2 cfg l2
           in Inr (np_div_col Xc (np_sqrt div2))))"

text \<open>
  The normalization as the specification words it, row by row: the mean of the row if
  \<open>remove_mean\<close> (zero otherwise), the centered row, its squared L2 norm, the
  denominator (the maximum of the squared norm and \<open>beta\<close> if \<open>hard_beta\<close>, their sum
  otherwise), and the centered row divided by the square root of the denominator.
\<close>

definition spec_mean :: "config \<Rightarrow> real list \<Rightarrow> real" where
  "spec_mean cfg r = (if remove_mean cfg then sum_list r / real (length r) else 0)"

definition spec_center :: "config \<Rightarrow> real list \<Rightarrow> real list" where
  "spec_center cfg r = map (\<lambda>x. x - spec_mean cfg r) r"

definition spec_sqnorm :: "real list \<Rightarrow> real" where
  "spec_sqnorm c = (\<Sum>x\<leftarrow>c. x\<^sup>2)"

definition spec_denominator :: "config \<Rightarrow> real list \<Rightarrow> real" where
  "spec_denominator cfg c =
     (if hard_beta cfg then max (spec_sqnorm c) (beta cfg) else spec_sqnorm c + beta cfg)"

definition spec_normalize_row :: "config \<Rightarrow> real list \<Rightarrow> real list" where
  "spec_normalize_row cfg r =
     (let c = spec_center cfg r in map (\<lambda>x. x / sqrt (spec_denominator cfg c)) c)"

definition spec_normalize :: "config \<Rightarrow> ndarray \<Rightarrow> ndarray" where
  "spec_normalize cfg X = of_rows (nrows X) (ncols X) (map (spec_normalize_row cfg) (rows X))"

text \<open>The squared L2 norm of row \<open>i\<close> of a two-dimensional array.\<close>

definition row_sqnorm :: "ndarray \<Rightarrow> nat \<Rightarrow> real" where
  "row_sqnorm Y i = (\<Sum>j\<leftarrow>[0..<ncols Y]. (at2 Y i j)\<^sup>2)"

section \<open>ZCA whitening\<close>

text \<open>
  \<open>patches.reshape(len(patches), -1)\<close>: \<open>len\<close> of a zero-dimensional array is a
  TypeError, and numpy cannot infer the second dimension when the first is 0 (a
  ValueError). \<open>astype('float64')\<close> changes no real number.
\<close>

definition np_reshape_rows :: "ndarray \<Rightarrow> error + ndarray" where
  "np_reshape_rows X =
     (case shape X of
        [] \<Rightarrow> Inl TypeError
      | n # _ \<Rightarrow>
          if n = 0 then Inl ValueError
          else Inr (NDArray [n, length (flat X) div n] (flat X)))"

text \<open>
  Modelled from the spec: \<open>mean_and_std\<close> is imported from the repository's \<open>util\<close>
  module, which is not among the sources. The specification says of its first result:
  the feature-wise mean vector M (length D) across the N patches. Its second result is
  bound to \<open>_std\<close> and never read.
\<close>

definition mean_and_std_M :: "ndarray \<Rightarrow> ndarray" where
  "mean_and_std_M X = mk1 (ncols X) (\<lambda>j. (\<Sum>i\<leftarrow>[0..<nrows X]. at2 X i j) / real (nrows X))"

text \<open>\<open>X - M\<close> for \<open>M\<close> of shape \<open>(X.shape[1],)\<close>: \<open>M\<close> is subtracted from every row.\<close>

definition np_sub_row :: "ndarray \<Rightarrow> ndarray \<Rightarrow> ndarray" where
  "np_sub_row X v = mk2 (nrows X) (ncols X) (\<lambda>i j. at2 X i j - at1 v j)"

text \<open>\<open>v * V\<close> for \<open>v\<close> of shape \<open>(V.shape[1],)\<close>: column \<open>j\<close> of \<open>V\<close> is multiplied
  by \<open>v[j]\<close>.\<close>

definition np_mul_row :: "ndarray \<Rightarrow> ndarray \<Rightarrow> ndarray" where
  "np_mul_row v V = mk2 (nrows V) (ncols V) (\<lambda>i j. at1 v j * at2 V i j)"

text \<open>\<open>A.T\<close>, \<open>np.dot(A, B)\<close>, \<open>A / c\<close> with a scalar \<open>c\<close> on two-dimensional arrays, and
  \<open>c / v\<close> on a one-dimensional array.\<close>

definition np_transpose :: "ndarray \<Rightarrow> ndarray" where
  "np_transpose A = mk2 (ncols A) (nrows A) (\<lambda>i j. at2 A j i)"

definition np_dot :: "ndarray \<Rightarrow> ndarray \<Rightarrow> ndarray" where
  "np_dot A B = mk2 (nrows A) (ncols B) (\<lambda>i j. \<Sum>k\<leftarrow>[0..<ncols A]. at2 A i k * at2 B k j)"

definition np_div_scalar :: "ndarray \<Rightarrow> real \<Rightarrow> ndarray" where
  "np_div_scalar A c = mk2 (nrows A) (ncols A) (\<lambda>i j. at2 A i j / c)"

definition np_rdiv_scalar :: "real \<Rightarrow> ndarray \<Rightarrow> ndarray" where
  "np_rdiv_scalar c v = mk1 (nrows v) (\<lambda>i. c / at1 v i)"

text \<open>\<open>C = np.dot(Xm.T, Xm) / (Xm.shape[0] - 1)\<close>.\<close>

definition zca_cov :: "ndarray \<Rightarrow> ndarray" where
  "zca_cov Xm = np_div_scalar (np_dot (np_transpose Xm) Xm) (real (nrows Xm) - 1)"

text \<open>\<open>P = np.dot(np.sqrt(1.0 / (D + gamma)) * V, V.T)\<close>.\<close>

definition zca_P :: "config \<Rightarrow> ndarray \<Rightarrow> ndarray \<Rightarrow> ndarray" where
  "zca_P cfg D V =
     np_dot (np_mul_row (np_sqrt (np_rdiv_scalar 1 (np_add_scalar D (gamma cfg)))) V)
       (np_transpose V)"

text \<open>
  \<open>ZCA_whiten\<close> from \<open>M, _std = mean_and_std(X)\<close> on: the fit on the normalized
  batch. \<open>np.linalg.eigh\<close> is numpy's, and a parameter \<open>eigh\<close> here: it maps a matrix to
  the array of its eigenvalues and the matrix whose columns are the eigenvectors, or
  raises (a LinAlgError when the computation does not converge). The \<open>print\<close>
  statements and the plot of the eigenvalues change no value and are left out.
\<close>

type_synonym eigh_fun = "ndarray \<Rightarrow> error + ndarray \<times> ndarray"

definition ZCA_fit :: "eigh_fun \<Rightarrow> config \<Rightarrow> ndarray \<Rightarrow> error + ndarray \<times> ndarray \<times> ndarray" where
  "ZCA_fit eigh cfg X =
     (let M = mean_and_std_M X;
          Xm = np_sub_row X M
      in if shape Xm \<noteq> shape X then Inl AssertionError
         else
           (let C = zca_cov Xm
            in case eigh C of
                 Inl e \<Rightarrow> Inl e
               | Inr (D, V) \<Rightarrow>
                   (let P = zca_P cfg D V
                    in if ndim M \<noteq> 1 then Inl AssertionError else Inr (M, P, X))))"

text \<open>The whole function: the reshape, the normalization and the fit.\<close>

definition ZCA_whiten :: "eigh_fun \<Rightarrow> config \<Rightarrow> ndarray \<Rightarrow> error + ndarray \<times> ndarray \<times> ndarray" where
  "ZCA_whiten eigh cfg patches =
     (case np_reshape_rows patches of
        Inl e \<Rightarrow> Inl e
      | Inr X0 \<Rightarrow>
          (case contrast_normalize cfg X0 of
             Inl e \<Rightarrow> Inl e
           | Inr X \<Rightarrow> ZCA_fit eigh cfg X))"

text \<open>
  What numpy documents of \<open>eigh\<close> on a \<open>d \<times> d\<close> symmetric matrix \<open>C\<close>: the eigenvalues
  \<open>w\<close> have shape \<open>(d,)\<close>, the matrix \<open>v\<close> has shape \<open>(d, d)\<close> and is orthogonal, and
  column \<open>k\<close> of \<open>v\<close> is an eigenvector of \<open>C\<close> for \<open>w[k]\<close>.
\<close>

definition eigh_shapes :: "nat \<Rightarrow> ndarray \<times> ndarray \<Rightarrow> bool" where
  "eigh_shapes d wv = (case wv of (w, v) \<Rightarrow> shape w = [d] \<and> shape v = [d, d])"

definition eigh_contract :: "nat \<Rightarrow> ndarray \<Rightarrow> ndarray \<times> ndarray \<Rightarrow> bool" where
  "eigh_contract d C wv =
     (case wv of (w, v) \<Rightarrow>
        shape w = [d] \<and> shape v = [d, d] \<and>
        list_all (\<lambda>i. list_all (\<lambda>k.
            (\<Sum>j\<leftarrow>[0..<d]. at2 C i j * at2 v j k) = at1 w k * at2 v i k) [0..<d]) [0..<d] \<and>
        list_all (\<lambda>i. list_all (\<lambda>j.
            (\<Sum>k\<leftarrow>[0..<d]. at2 v i k * at2 v j k) = (if i = j then 1 else 0)) [0..<d]) [0..<d] \<and>
        list_all (\<lambda>i. list_all (\<lambda>j.
            (\<Sum>k\<leftarrow>[0..<d]. at2 v k i * at2 v k j) = (if i = j then 1 else 0)) [0..<d]) [0..<d])"

text \<open>
  The whitening matrix as the specification words it: V times the diagonal matrix of
  \<open>1 / sqrt (lambda + gamma)\<close> times the transpose of V.
\<close>

definition np_diag :: "ndarray \<Rightarrow> ndarray" where
  "np_diag v = mk2 (nrows v) (nrows v) (\<lambda>i j. if i = j then at1 v i else 0)"

definition spec_P :: "real \<Rightarrow> ndarray \<Rightarrow> ndarray \<Rightarrow> ndarray" where
  "spec_P g D V =
     np_dot (np_dot V (np_diag (mk1 (nrows D) (\<lambda>k. 1 / sqrt (at1 D k + g))))) (np_transpose V)"

text \<open>The \<open>d \<times> d\<close> matrix \<open>c\<close> times the identity.\<close>

definition scaled_identity :: "nat \<Rightarrow> real \<Rightarrow> ndarray" where
  "scaled_identity d c = mk2 d d (\<lambda>i j. if i = j then c else 0)"

section \<open>Facts about arrays\<close>

lemma shape_mk1 [simp]: "shape (mk1 n f) = [n]"
  by (simp add: mk1_def)

lemma nrows_mk1 [simp]: "nrows (mk1 n f) = n"
  by (simp add: nrows_def)

lemma at1_mk1 [simp]: "i < n \<Longrightarrow> at1 (mk1 n f) i = f i"
  by (simp add: at1_def mk1_def)

lemma shape_mk2 [simp]: "shape (mk2 n d f) = [n, d]"
  by (simp add: mk2_def)

lemma nrows_mk2 [simp]: "nrows (mk2 n d f) = n"
  by (simp add: nrows_def)

lemma ncols_mk2 [simp]: "ncols (mk2 n d f) = d"
  by (simp add: ncols_def)

lemma ndim_mk2 [simp]: "ndim (mk2 n d f) = 2"
  by (simp add: ndim_def)

lemma length_concat_rows:
  "length (concat (map (\<lambda>i. map (f i) [0..<d]) [0..<n])) = n * d"
  by (induction n) simp_all

lemma nth_concat_rows:
  "i < n \<Longrightarrow> j < d \<Longrightarrow> concat (map (\<lambda>i. map (f i) [0..<d]) [0..<n]) ! (i * d + j) = f i j"
proof (induction n)
  case 0
  then show ?case by simp
next
  case (Suc n)
  have len: "length (concat (map (\<lambda>i. map (f i) [0..<d]) [0..<n])) = n * d"
    by (rule length_concat_rows)
  show ?case
  proof (cases "i < n")
    case True
    have "i * d + j < Suc i * d"
      using Suc.prems(2) by simp
    also have "\<dots> \<le> n * d"
      using True by (intro mult_le_mono1) simp
    finally have "i * d + j < n * d" .
    with Suc.IH [OF True Suc.prems(2)] len show ?thesis
      by (simp add: nth_append)
  next
    case False
    with Suc.prems have "i = n" by simp
    with len Suc.prems(2) show ?thesis
      by (simp add: nth_append)
  qed
qed

lemma at2_mk2 [simp]: "i < n \<Longrightarrow> j < d \<Longrightarrow> at2 (mk2 n d f) i j = f i j"
  by (simp add: at2_def ncols_def mk2_def nth_concat_rows)

lemma wf_mk1 [simp]: "wf_array (mk1 n f)"
  by (simp add: wf_array_def mk1_def)

lemma wf_mk2 [simp]: "wf_array (mk2 n d f)"
  by (simp add: wf_array_def mk2_def length_concat_rows)

lemma mk1_cong: "(\<And>i. i < n \<Longrightarrow> f i = g i) \<Longrightarrow> mk1 n f = mk1 n g"
  by (simp add: mk1_def)

lemma mk2_cong: "(\<And>i j. i < n \<Longrightarrow> j < d \<Longrightarrow> f i j = g i j) \<Longrightarrow> mk2 n d f = mk2 n d g"
proof -
  assume h: "\<And>i j. i < n \<Longrightarrow> j < d \<Longrightarrow> f i j = g i j"
  have "map (\<lambda>i. map (f i) [0..<d]) [0..<n] = map (\<lambda>i. map (g i) [0..<d]) [0..<n]"
    using h by simp
  then show ?thesis by (simp only: mk2_def)
qed

lemma row_mk2: "i < n \<Longrightarrow> map (at2 (mk2 n d f) i) [0..<d] = map (f i) [0..<d]"
  by simp

lemma shape_2d: "ndim X = 2 \<Longrightarrow> shape X = [nrows X, ncols X]"
  by (cases "shape X"; cases "tl (shape X)"; cases "tl (tl (shape X))")
     (auto simp: ndim_def nrows_def ncols_def)

lemma sum_list_upt: "(\<Sum>j\<leftarrow>[0..<d]. f j) = sum f {0..<d}"
  by (simp add: interv_sum_list_conv_sum_set_nat)

section \<open>Contrast normalization: the stages in closed form\<close>

lemma cn_center_TypeError: "ndim X \<noteq> 2 \<Longrightarrow> cn_center cfg X = Inl TypeError"
  by (simp add: cn_center_def)

lemma cn_center_IndexError:
  "ndim X = 2 \<Longrightarrow> \<not> remove_mean cfg \<Longrightarrow> ncols X = 0 \<Longrightarrow> cn_center cfg X = Inl IndexError"
  by (simp add: cn_center_def np_column0_def)

lemma cn_center_Inr:
  assumes "ndim X = 2" "remove_mean cfg \<or> 0 < ncols X"
  shows "cn_center cfg X =
    Inr (mk2 (nrows X) (ncols X) (\<lambda>i j. at2 X i j -
      (if remove_mean cfg then (\<Sum>j\<leftarrow>[0..<ncols X]. at2 X i j) / real (ncols X) else 0)))"
proof (cases "remove_mean cfg")
  case True
  have "np_sub_col X (np_mean1 X) = mk2 (nrows X) (ncols X) (\<lambda>i j. at2 X i j -
      (if remove_mean cfg then (\<Sum>j\<leftarrow>[0..<ncols X]. at2 X i j) / real (ncols X) else 0))"
    unfolding np_sub_col_def by (rule mk2_cong) (simp add: np_mean1_def True)
  with assms True show ?thesis by (simp add: cn_center_def)
next
  case False
  with assms have d: "0 < ncols X" by simp
  have "np_sub_col X (np_mul_scalar (mk1 (nrows X) (\<lambda>i. at2 X i 0)) 0)
      = mk2 (nrows X) (ncols X) (\<lambda>i j. at2 X i j -
      (if remove_mean cfg then (\<Sum>j\<leftarrow>[0..<ncols X]. at2 X i j) / real (ncols X) else 0))"
    unfolding np_sub_col_def by (rule mk2_cong) (simp add: np_mul_scalar_def False)
  with assms False d show ?thesis by (simp add: cn_center_def np_column0_def)
qed

lemma cn_center_cases:
  "cn_center cfg X =
     (if ndim X \<noteq> 2 then Inl TypeError
      else if \<not> remove_mean cfg \<and> ncols X = 0 then Inl IndexError
      else Inr (mk2 (nrows X) (ncols X) (\<lambda>i j. at2 X i j -
        (if remove_mean cfg then (\<Sum>j\<leftarrow>[0..<ncols X]. at2 X i j) / real (ncols X) else 0))))"
  using cn_center_TypeError [of X cfg] cn_center_IndexError [of X cfg] cn_center_Inr [of X cfg]
  by auto

lemma cn_center_shape:
  assumes "cn_center cfg X = Inr Xc"
  shows "ndim X = 2" "nrows Xc = nrows X" "ncols Xc = ncols X" "shape Xc = shape X"
  using assms by (auto simp: cn_center_cases shape_2d split: if_splits)

lemma at1_cn_l2: "i < nrows Xc \<Longrightarrow> at1 (cn_l2 Xc) i = row_sqnorm Xc i"
  by (simp add: cn_l2_def np_sum1_def np_mul_def row_sqnorm_def power2_eq_square row_mk2)

lemma nrows_cn_l2 [simp]: "nrows (cn_l2 Xc) = nrows Xc"
  by (simp add: cn_l2_def np_sum1_def np_mul_def)

lemma nrows_cn_div2 [simp]: "nrows (cn_div2 cfg l2) = nrows l2"
  by (simp add: cn_div2_def np_maximum_def np_add_scalar_def)

lemma at1_cn_div2:
  "i < nrows l2 \<Longrightarrow>
   at1 (cn_div2 cfg l2) i =
     (if hard_beta cfg then max (at1 l2 i) (beta cfg) else at1 l2 i + beta cfg)"
  by (simp add: cn_div2_def np_maximum_def np_add_scalar_def)

lemma contrast_normalize_Inr:
  assumes "cn_center cfg X = Inr Xc"
  shows "contrast_normalize cfg X =
    Inr (mk2 (nrows X) (ncols X) (\<lambda>i j. at2 Xc i j / sqrt (at1 (cn_div2 cfg (cn_l2 Xc)) i)))"
proof -
  have "np_div_col Xc (np_sqrt (cn_div2 cfg (cn_l2 Xc))) =
      mk2 (nrows Xc) (ncols Xc) (\<lambda>i j. at2 Xc i j / sqrt (at1 (cn_div2 cfg (cn_l2 Xc)) i))"
    unfolding np_div_col_def by (rule mk2_cong) (simp add: np_sqrt_def)
  with assms cn_center_shape [OF assms] show ?thesis
    by (simp add: contrast_normalize_def)
qed

lemma contrast_normalize_Inl:
  "cn_center cfg X = Inl e \<Longrightarrow> contrast_normalize cfg X = Inl e"
  by (simp add: contrast_normalize_def)

lemma row_sqnorm_nonneg: "0 \<le> row_sqnorm Y i"
  unfolding row_sqnorm_def by (rule sum_list_nonneg) auto

lemma row_sqnorm_scaled:
  assumes "i < n" "0 \<le> g i"
  shows "row_sqnorm (mk2 n d (\<lambda>i j. f i j / sqrt (g i))) i = (\<Sum>j\<leftarrow>[0..<d]. (f i j)\<^sup>2) / g i"
proof -
  have "row_sqnorm (mk2 n d (\<lambda>i j. f i j / sqrt (g i))) i
      = (\<Sum>j\<leftarrow>[0..<d]. (f i j / sqrt (g i))\<^sup>2)"
    unfolding row_sqnorm_def sum_list_upt
    by (rule sum.cong) (use assms(1) in simp_all)
  also have "\<dots> = (\<Sum>j\<leftarrow>[0..<d]. (f i j)\<^sup>2 / g i)"
    using assms(2) by (simp add: power_divide)
  also have "\<dots> = (\<Sum>j\<leftarrow>[0..<d]. (f i j)\<^sup>2) / g i"
    by (simp add: sum_list_upt sum_divide_distrib)
  finally show ?thesis .
qed

lemma div2_lower:
  assumes "i < nrows Xc" "0 < beta cfg"
  shows "0 < at1 (cn_div2 cfg (cn_l2 Xc)) i"
    and "row_sqnorm Xc i \<le> at1 (cn_div2 cfg (cn_l2 Xc)) i"
  using assms row_sqnorm_nonneg [of Xc i] by (auto simp: at1_cn_div2 at1_cn_l2)

lemma cn_row_sqnorm:
  assumes "cn_center cfg X = Inr Xc" "i < nrows X" "0 < beta cfg"
  shows "\<exists>Y. contrast_normalize cfg X = Inr Y \<and>
    row_sqnorm Y i = row_sqnorm Xc i / at1 (cn_div2 cfg (cn_l2 Xc)) i"
proof -
  have n: "i < nrows Xc"
    using assms cn_center_shape(2) [OF assms(1)] by simp
  have pos: "0 \<le> at1 (cn_div2 cfg (cn_l2 Xc)) i"
    using div2_lower(1) [OF n assms(3)] by simp
  have "row_sqnorm (mk2 (nrows X) (ncols X)
          (\<lambda>i j. at2 Xc i j / sqrt (at1 (cn_div2 cfg (cn_l2 Xc)) i))) i
    = (\<Sum>j\<leftarrow>[0..<ncols X]. (at2 Xc i j)\<^sup>2) / at1 (cn_div2 cfg (cn_l2 Xc)) i"
    using pos
    by (rule row_sqnorm_scaled [where g = "\<lambda>i. at1 (cn_div2 cfg (cn_l2 Xc)) i", OF assms(2)])
  then show ?thesis
    using contrast_normalize_Inr [OF assms(1)] cn_center_shape(3) [OF assms(1)]
    by (simp add: row_sqnorm_def)
qed

lemma cn_center_hard_beta [simp]: "cn_center (cfg\<lparr>hard_beta := b\<rparr>) X = cn_center cfg X"
  by (simp add: cn_center_cases)

lemma cn_center_beta [simp]: "cn_center (cfg\<lparr>beta := b\<rparr>) X = cn_center cfg X"
  by (simp add: cn_center_cases)

lemma at2_contrast_normalize:
  assumes "cn_center cfg X = Inr Xc" "i < nrows X" "j < ncols X"
  shows "at2 (projr (contrast_normalize cfg X)) i j =
     at2 Xc i j / sqrt (if hard_beta cfg then max (row_sqnorm Xc i) (beta cfg)
                        else row_sqnorm Xc i + beta cfg)"
  using assms cn_center_shape [OF assms(1)]
  by (simp add: contrast_normalize_Inr [OF assms(1)] at1_cn_div2 at1_cn_l2)

lemma row_sqnorm_zero_iff: "row_sqnorm Y i = 0 \<longleftrightarrow> (\<forall>j<ncols Y. at2 Y i j = 0)"
proof -
  have "row_sqnorm Y i = 0 \<longleftrightarrow> (\<forall>j\<in>{0..<ncols Y}. (at2 Y i j)\<^sup>2 = 0)"
    unfolding row_sqnorm_def sum_list_upt
    by (rule sum_nonneg_eq_0_iff) simp_all
  then show ?thesis by auto
qed

lemma soft_limit:
  assumes "0 < (l::real)"
  shows "((\<lambda>b. c / sqrt (l + b)) \<longlongrightarrow> c / sqrt l) (at_right 0)"
proof -
  have "((\<lambda>b. c / sqrt (l + b)) \<longlongrightarrow> c / sqrt (l + 0)) (at_right 0)"
    using assms by (intro tendsto_intros) (auto intro!: tendsto_eq_intros)
  then show ?thesis by simp
qed

subsection \<open>The normalization row by row\<close>

lemma spec_center_row:
  assumes "cn_center cfg X = Inr Xc" "i < nrows X"
  shows "spec_center cfg (map (at2 X i) [0..<ncols X]) = map (at2 Xc i) [0..<ncols X]"
proof -
  have Xc: "Xc = mk2 (nrows X) (ncols X) (\<lambda>i j. at2 X i j -
        (if remove_mean cfg then (\<Sum>j\<leftarrow>[0..<ncols X]. at2 X i j) / real (ncols X) else 0))"
    using assms(1) by (simp add: cn_center_cases split: if_splits)
  show ?thesis
    unfolding Xc row_mk2 [OF assms(2)]
    by (simp add: spec_center_def spec_mean_def comp_def)
qed

lemma spec_denominator_row:
  assumes "cn_center cfg X = Inr Xc" "i < nrows X"
  shows "spec_denominator cfg (map (at2 Xc i) [0..<ncols X]) = at1 (cn_div2 cfg (cn_l2 Xc)) i"
  using assms cn_center_shape [OF assms(1)]
  by (simp add: spec_denominator_def spec_sqnorm_def at1_cn_div2 at1_cn_l2 row_sqnorm_def comp_def)

lemma spec_normalize_row_eq:
  assumes "cn_center cfg X = Inr Xc" "i < nrows X"
  shows "spec_normalize_row cfg (map (at2 X i) [0..<ncols X]) =
     map (\<lambda>j. at2 Xc i j / sqrt (at1 (cn_div2 cfg (cn_l2 Xc)) i)) [0..<ncols X]"
  by (simp add: spec_normalize_row_def spec_center_row [OF assms] spec_denominator_row [OF assms]
      comp_def)

lemma contrast_normalize_spec:
  assumes "cn_center cfg X = Inr Xc"
  shows "contrast_normalize cfg X = Inr (spec_normalize cfg X)"
proof -
  have "map (spec_normalize_row cfg) (rows X) =
      map (\<lambda>i. map (\<lambda>j. at2 Xc i j / sqrt (at1 (cn_div2 cfg (cn_l2 Xc)) i)) [0..<ncols X])
        [0..<nrows X]"
    unfolding rows_def map_map comp_def
    by (rule map_cong) (simp_all add: spec_normalize_row_eq [OF assms])
  then show ?thesis
    unfolding contrast_normalize_Inr [OF assms] spec_normalize_def of_rows_def mk2_def
    by simp
qed

subsection \<open>Evaluation on concrete arrays\<close>

lemma sqrt_9: "sqrt 9 = 3"
  using real_sqrt_abs [of 3] by simp

lemma sqrt_16: "sqrt 16 = 4"
  using real_sqrt_abs [of 4] by simp

lemma sqrt_25: "sqrt 25 = 5"
  using real_sqrt_abs [of 5] by simp

lemma upt_1: "[0..<1] = [0]"
  by (simp add: upt_conv_Cons)

lemma upt_2: "[0..<2] = [0, 1]"
  by (simp add: upt_conv_Cons)

lemma upt_3: "[0..<3] = [0, 1, 2]"
  by (simp add: upt_conv_Cons)

lemma upt_4: "[0..<4] = [0, 1, 2, 3]"
  by (simp add: upt_conv_Cons)

lemma upt_5: "[0..<5] = [0, 1, 2, 3, 4]"
  by (simp add: upt_conv_Cons)

lemmas upt_small = upt_1 upt_2 upt_3 upt_4 upt_5

lemmas np_defs = wf_array_def ndim_def nrows_def ncols_def at1_def at2_def mk1_def mk2_def
  np_mean1_def np_column0_def np_mul_scalar_def np_add_scalar_def np_maximum_def np_sqrt_def
  np_sub_col_def np_div_col_def np_mul_def np_sum1_def row_sqnorm_def

lemmas cn_defs = cn_center_def cn_l2_def cn_div2_def contrast_normalize_def

lemmas spec_cn_defs = spec_mean_def spec_center_def spec_sqnorm_def spec_denominator_def
  spec_normalize_row_def spec_normalize_def rows_def of_rows_def

section \<open>ZCA whitening: the fit in closed form\<close>

lemma shape_np_sub_row: "ndim X = 2 \<Longrightarrow> shape (np_sub_row X M) = shape X"
  by (simp add: np_sub_row_def shape_2d)

lemma ndim_mean_and_std_M [simp]: "ndim (mean_and_std_M X) = 1"
  by (simp add: mean_and_std_M_def ndim_def)

lemma shape_mean_and_std_M [simp]: "shape (mean_and_std_M X) = [ncols X]"
  by (simp add: mean_and_std_M_def)

lemma ZCA_fit_eq:
  assumes "ndim X = 2"
  shows "ZCA_fit eigh cfg X =
    (case eigh (zca_cov (np_sub_row X (mean_and_std_M X))) of
       Inl e \<Rightarrow> Inl e
     | Inr (D, V) \<Rightarrow> Inr (mean_and_std_M X, zca_P cfg D V, X))"
  using assms by (simp add: ZCA_fit_def shape_np_sub_row Let_def split: sum.splits prod.splits)

lemma shape_zca_cov [simp]: "shape (zca_cov Xm) = [ncols Xm, ncols Xm]"
  by (simp add: zca_cov_def np_div_scalar_def np_dot_def np_transpose_def)

lemma zca_P_entries:
  assumes "shape D = [d]" "shape V = [d, d]"
  shows "zca_P cfg D V =
    mk2 d d (\<lambda>i j. \<Sum>k = 0..<d. sqrt (1 / (at1 D k + gamma cfg)) * at2 V i k * at2 V j k)"
proof -
  have nD: "nrows D = d" and nV: "nrows V = d" and cV: "ncols V = d"
    using assms by (simp_all add: nrows_def ncols_def)
  show ?thesis
    unfolding zca_P_def np_dot_def sum_list_upt
    apply (simp add: np_mul_row_def np_transpose_def nV cV)
    apply (rule mk2_cong)
    apply (rule sum.cong)
     apply (simp_all add: np_sqrt_def np_rdiv_scalar_def np_add_scalar_def nD)
    done
qed

lemma spec_P_entries:
  assumes "shape D = [d]" "shape V = [d, d]"
  shows "spec_P g D V =
    mk2 d d (\<lambda>i j. \<Sum>k = 0..<d. at2 V i k * (1 / sqrt (at1 D k + g)) * at2 V j k)"
proof -
  have nD: "nrows D = d" and nV: "nrows V = d" and cV: "ncols V = d"
    using assms by (simp_all add: nrows_def ncols_def)
  have inner: "np_dot V (np_diag (mk1 d (\<lambda>k. 1 / sqrt (at1 D k + g)))) =
      mk2 d d (\<lambda>i k. at2 V i k * (1 / sqrt (at1 D k + g)))"
    unfolding np_dot_def np_diag_def sum_list_upt
    apply (simp add: nV cV)
    apply (rule mk2_cong)
    subgoal for i j
    proof -
      assume j: "j < d"
      have "(\<Sum>k = 0..<d. at2 V i k * at2 (mk2 d d (\<lambda>i j. if i = j then at1 (mk1 d (\<lambda>k. 1 / sqrt (at1 D k + g))) i else 0)) k j)
        = (\<Sum>k = 0..<d. if k = j then at2 V i k * (1 / sqrt (at1 D k + g)) else 0)"
        by (rule sum.cong) (use j in auto)
      also have "\<dots> = at2 V i j * (1 / sqrt (at1 D j + g))"
        using j by (simp add: sum.delta)
      finally show ?thesis by simp
    qed
    done
  show ?thesis
    unfolding spec_P_def nD inner
    unfolding np_dot_def sum_list_upt
    apply (simp add: np_transpose_def nV cV)
    apply (rule mk2_cong)
    apply (rule sum.cong)
     apply simp_all
    done
qed

lemma zca_P_spec:
  assumes "shape D = [d]" "shape V = [d, d]"
  shows "zca_P cfg D V = spec_P (gamma cfg) D V"
  unfolding zca_P_entries [OF assms] spec_P_entries [OF assms]
  by (rule mk2_cong) (simp add: real_sqrt_divide mult_ac)

lemma zca_P_symmetric:
  assumes "shape D = [d]" "shape V = [d, d]"
  shows "np_transpose (zca_P cfg D V) = zca_P cfg D V"
  unfolding zca_P_entries [OF assms] np_transpose_def
  apply simp
  apply (rule mk2_cong)
  apply (simp add: mult_ac)
  done

lemma list_all_upt: "list_all P [0..<d] = (\<forall>i<d. P i)"
  by (auto simp: list_all_iff)

lemma eigh_contractD:
  assumes "eigh_contract d C (w, v)"
  shows "shape w = [d]" "shape v = [d, d]"
    and "\<And>i k. i < d \<Longrightarrow> k < d \<Longrightarrow> (\<Sum>j = 0..<d. at2 C i j * at2 v j k) = at1 w k * at2 v i k"
    and "\<And>i j. i < d \<Longrightarrow> j < d \<Longrightarrow> (\<Sum>k = 0..<d. at2 v i k * at2 v j k) = (if i = j then 1 else 0)"
  using assms by (simp_all add: eigh_contract_def list_all_upt sum_list_upt)

lemma zca_P_identity:
  assumes C: "C = scaled_identity d 1" and e: "eigh_contract d C (w, v)"
  shows "zca_P cfg w v = scaled_identity d (1 / sqrt (1 + gamma cfg))"
proof -
  note E = eigh_contractD [OF e]
  have eq: "at1 w k * at2 v i k = at2 v i k" if "i < d" "k < d" for i k
  proof -
    have "(\<Sum>j = 0..<d. at2 C i j * at2 v j k) = (\<Sum>j = 0..<d. if j = i then at2 v j k else 0)"
      by (rule sum.cong) (use that in \<open>auto simp: C scaled_identity_def\<close>)
    also have "\<dots> = at2 v i k"
      using that by (simp add: sum.delta)
    finally show ?thesis using E(3) [OF that] by simp
  qed
  have tm: "sqrt (1 / (at1 w k + gamma cfg)) * at2 v i k * at2 v j k
      = 1 / sqrt (1 + gamma cfg) * (at2 v i k * at2 v j k)" if "i < d" "k < d" for i j k
  proof (cases "at2 v i k = 0")
    case True
    then show ?thesis by simp
  next
    case False
    with eq [OF that] have "at1 w k = 1" by simp
    then show ?thesis by (simp add: real_sqrt_divide)
  qed
  show ?thesis
    unfolding zca_P_entries [OF E(1,2)] scaled_identity_def
  proof (rule mk2_cong)
    fix i j assume ij: "i < d" "j < d"
    have "(\<Sum>k = 0..<d. sqrt (1 / (at1 w k + gamma cfg)) * at2 v i k * at2 v j k)
        = (\<Sum>k = 0..<d. 1 / sqrt (1 + gamma cfg) * (at2 v i k * at2 v j k))"
      by (rule sum.cong) (use tm ij in auto)
    also have "\<dots> = 1 / sqrt (1 + gamma cfg) * (\<Sum>k = 0..<d. at2 v i k * at2 v j k)"
      by (simp only: sum_distrib_left)
    also have "\<dots> = (if i = j then 1 / sqrt (1 + gamma cfg) else 0)"
      using E(4) [OF ij] by simp
    finally show "(\<Sum>k = 0..<d. sqrt (1 / (at1 w k + gamma cfg)) * at2 v i k * at2 v j k)
        = (if i = j then 1 / sqrt (1 + gamma cfg) else 0)" .
  qed
qed

lemma at2_zca_cov:
  assumes "i < ncols Xm" "j < ncols Xm"
  shows "at2 (zca_cov Xm) i j = (\<Sum>r = 0..<nrows Xm. at2 Xm r i * at2 Xm r j) / (real (nrows Xm) - 1)"
proof -
  have "(\<Sum>k = 0..<nrows Xm. at2 (mk2 (ncols Xm) (nrows Xm) (\<lambda>i j. at2 Xm j i)) i k * at2 Xm k j)
      = (\<Sum>r = 0..<nrows Xm. at2 Xm r i * at2 Xm r j)"
    by (rule sum.cong) (use assms in simp_all)
  then show ?thesis
    using assms by (simp add: zca_cov_def np_div_scalar_def np_dot_def np_transpose_def sum_list_upt)
qed

lemma quadratic_form:
  fixes a :: "nat \<Rightarrow> nat \<Rightarrow> real" and u :: "nat \<Rightarrow> real"
  shows "(\<Sum>i = 0..<d. u i * (\<Sum>j = 0..<d. (\<Sum>r = 0..<n. a r i * a r j) * u j))
       = (\<Sum>r = 0..<n. (\<Sum>i = 0..<d. a r i * u i)\<^sup>2)"
proof -
  have "(\<Sum>r = 0..<n. (\<Sum>i = 0..<d. a r i * u i)\<^sup>2)
      = (\<Sum>r = 0..<n. \<Sum>i = 0..<d. \<Sum>j = 0..<d. u i * (a r i * a r j * u j))"
    by (simp add: power2_eq_square sum_product mult_ac)
  also have "\<dots> = (\<Sum>i = 0..<d. \<Sum>r = 0..<n. \<Sum>j = 0..<d. u i * (a r i * a r j * u j))"
    by (rule sum.swap)
  also have "\<dots> = (\<Sum>i = 0..<d. \<Sum>j = 0..<d. \<Sum>r = 0..<n. u i * (a r i * a r j * u j))"
    by (rule sum.cong [OF refl]) (rule sum.swap)
  also have "\<dots> = (\<Sum>i = 0..<d. u i * (\<Sum>j = 0..<d. (\<Sum>r = 0..<n. a r i * a r j) * u j))"
    by (simp add: sum_distrib_left sum_distrib_right mult_ac)
  finally show ?thesis by simp
qed

lemma eigenvalue_nonneg:
  assumes sh: "shape Xm = [n, d]" and n: "2 \<le> n"
    and e: "eigh_contract d (zca_cov Xm) (w, v)" and k: "k < d"
  shows "0 \<le> at1 w k"
proof -
  have nr: "nrows Xm = n" and nc: "ncols Xm = d"
    using sh by (simp_all add: nrows_def ncols_def)
  have E3: "\<And>i k. i < d \<Longrightarrow> k < d \<Longrightarrow>
      (\<Sum>j = 0..<d. at2 (zca_cov Xm) i j * at2 v j k) = at1 w k * at2 v i k"
    and E5: "\<And>i j. i < d \<Longrightarrow> j < d \<Longrightarrow>
      (\<Sum>k = 0..<d. at2 v k i * at2 v k j) = (if i = j then 1 else 0)"
    using e by (simp_all add: eigh_contract_def list_all_upt sum_list_upt)
  let ?c = "real n - 1"
  define S where "S i j = (\<Sum>r = 0..<n. at2 Xm r i * at2 Xm r j)" for i j
  have c: "0 < ?c" using n by simp
  have "at1 w k = at1 w k * (\<Sum>i = 0..<d. at2 v i k * at2 v i k)"
    using E5 [OF k k] by simp
  also have "\<dots> = (\<Sum>i = 0..<d. at2 v i k * (at1 w k * at2 v i k))"
    by (simp add: sum_distrib_left mult_ac)
  also have "\<dots> = (\<Sum>i = 0..<d. at2 v i k * (\<Sum>j = 0..<d. at2 (zca_cov Xm) i j * at2 v j k))"
    by (rule sum.cong) (use E3 k in simp_all)
  also have "\<dots> = (\<Sum>i = 0..<d. at2 v i k * (\<Sum>j = 0..<d. (S i j / ?c) * at2 v j k))"
    by (intro sum.cong refl arg_cong2 [where f = "(*)"]) (simp_all add: at2_zca_cov nc nr S_def)
  also have "\<dots> = (\<Sum>i = 0..<d. at2 v i k * (\<Sum>j = 0..<d. S i j * at2 v j k)) / ?c"
    by (simp add: sum_distrib_left sum_divide_distrib)
  also have "\<dots> = (\<Sum>r = 0..<n. (\<Sum>i = 0..<d. at2 Xm r i * at2 v i k)\<^sup>2) / ?c"
    unfolding S_def
    by (simp only: quadratic_form [where u = "\<lambda>i. at2 v i k" and a = "at2 Xm"])
  finally have "at1 w k = (\<Sum>r = 0..<n. (\<Sum>i = 0..<d. at2 Xm r i * at2 v i k)\<^sup>2) / ?c" .
  moreover have "0 \<le> (\<Sum>r = 0..<n. (\<Sum>i = 0..<d. at2 Xm r i * at2 v i k)\<^sup>2)"
    by (rule sum_nonneg) simp
  ultimately show ?thesis using c by simp
qed

lemmas zca_defs = np_reshape_rows_def mean_and_std_M_def np_sub_row_def np_mul_row_def
  np_transpose_def np_dot_def np_div_scalar_def np_rdiv_scalar_def zca_cov_def zca_P_def
  ZCA_fit_def ZCA_whiten_def

section \<open>Contrast normalization: the claims\<close>

text \<open>
  C1, as amended. For every two-dimensional batch with at least one column, or with
  \<open>remove_mean\<close> set, and every \<open>beta > 0\<close>, \<open>contrast_normalize\<close> returns the batch
  the specification describes: each row minus its mean (minus zero without
  \<open>remove_mean\<close>), divided by the square root of the maximum of its squared L2 norm and
  \<open>beta\<close> under \<open>hard_beta\<close>, and of their sum otherwise.
\<close>

theorem contrast_normalize_refines_spec:
  assumes "wf_array X" "ndim X = 2" "0 < beta cfg" "remove_mean cfg \<or> 0 < ncols X"
  shows "contrast_normalize cfg X = Inr (spec_normalize cfg X)"
  using contrast_normalize_spec [OF cn_center_Inr [OF assms(2,4)]] .

theorem contrast_normalize_refines_spec_witness:
  "wf_array (NDArray [2, 4] [3, 3, -1, -1, 2, 2, 0, 0]) \<and>
   ndim (NDArray [2, 4] [3, 3, -1, -1, 2, 2, 0, 0]) = 2 \<and>
   0 < beta \<lparr>remove_mean = True, hard_beta = True, beta = 9, gamma = 1 / 100\<rparr> \<and>
   remove_mean \<lparr>remove_mean = True, hard_beta = True, beta = 9, gamma = 1 / 100\<rparr> \<and>
   contrast_normalize \<lparr>remove_mean = True, hard_beta = True, beta = 9, gamma = 1 / 100\<rparr>
     (NDArray [2, 4] [3, 3, -1, -1, 2, 2, 0, 0]) =
   Inr (NDArray [2, 4] [1 / 2, 1 / 2, - 1 / 2, - 1 / 2, 1 / 3, 1 / 3, - 1 / 3, - 1 / 3])"
proof -
  let ?X = "NDArray [2, 4] [3, 3, -1, -1, 2, 2, 0, 0]"
  let ?c = "\<lparr>remove_mean = True, hard_beta = True, beta = 9, gamma = 1 / 100\<rparr>"
  have w: "wf_array ?X" and d: "ndim ?X = 2" and b: "0 < beta ?c"
    and r: "remove_mean ?c \<or> 0 < ncols ?X"
    by (simp_all add: np_defs)
  have "spec_normalize ?c ?X =
      NDArray [2, 4] [1 / 2, 1 / 2, - 1 / 2, - 1 / 2, 1 / 3, 1 / 3, - 1 / 3, - 1 / 3]"
    by (simp add: spec_cn_defs np_defs upt_small sqrt_9 sqrt_16)
  with contrast_normalize_refines_spec [OF w d b r] w d show ?thesis
    by simp
qed

text \<open>
  C1 as it is stated fails on a batch without columns when \<open>remove_mean\<close> is off:
  \<open>X[:, 0]\<close> raises an IndexError and no batch is returned.
\<close>

theorem contrast_normalize_no_columns_counterexample:
  "contrast_normalize \<lparr>remove_mean = False, hard_beta = True, beta = 10, gamma = 1 / 100\<rparr>
     (NDArray [1, 0] []) = Inl IndexError \<and>
   wf_array (NDArray [1, 0] []) \<and> ndim (NDArray [1, 0] []) = 2"
  by (simp add: cn_defs np_defs)

text \<open>
  C3. With \<open>hard_beta\<close> and \<open>beta > 0\<close>, every row whose centered squared L2 norm
  (the code's \<open>l2\<close>) is at least \<open>beta\<close> has squared L2 norm exactly 1 in the output.
\<close>

theorem hard_beta_unit_norm:
  assumes "wf_array X" "hard_beta cfg" "0 < beta cfg"
    and "cn_center cfg X = Inr Xc" "i < nrows X" "beta cfg \<le> at1 (cn_l2 Xc) i"
  shows "\<exists>Y. contrast_normalize cfg X = Inr Y \<and> row_sqnorm Y i = 1"
proof -
  have n: "i < nrows Xc"
    using assms(5) cn_center_shape(2) [OF assms(4)] by simp
  have "at1 (cn_div2 cfg (cn_l2 Xc)) i = row_sqnorm Xc i" "0 < row_sqnorm Xc i"
    using assms(2,3,6) n by (simp_all add: at1_cn_div2 at1_cn_l2)
  with cn_row_sqnorm [OF assms(4,5,3)] show ?thesis by simp
qed

theorem hard_beta_unit_norm_witness:
  "wf_array (NDArray [2, 2] [7, 1, 5, 4]) \<and>
   hard_beta notebook_config \<and> 0 < beta notebook_config \<and>
   cn_center notebook_config (NDArray [2, 2] [7, 1, 5, 4]) =
     Inr (NDArray [2, 2] [3, - 3, 1 / 2, - 1 / 2]) \<and>
   0 < nrows (NDArray [2, 2] [7, 1, 5, 4]) \<and>
   beta notebook_config \<le> at1 (cn_l2 (NDArray [2, 2] [3, - 3, 1 / 2, - 1 / 2])) 0 \<and>
   (\<exists>Y. contrast_normalize notebook_config (NDArray [2, 2] [7, 1, 5, 4]) = Inr Y \<and>
        row_sqnorm Y 0 = 1)"
proof -
  let ?X = "NDArray [2, 2] [7, 1, 5, 4]"
  let ?Xc = "NDArray [2, 2] [3, - 3, 1 / 2, - 1 / 2]"
  have w: "wf_array ?X" and h: "hard_beta notebook_config" and b: "0 < beta notebook_config"
    and i: "0 < nrows ?X"
    by (simp_all add: np_defs notebook_config_def)
  have c: "cn_center notebook_config ?X = Inr ?Xc"
    by (simp add: cn_defs np_defs notebook_config_def upt_small)
  have l: "beta notebook_config \<le> at1 (cn_l2 ?Xc) 0"
    by (simp add: cn_defs np_defs notebook_config_def upt_small)
  from hard_beta_unit_norm [OF w h b c i l] w h b c i l show ?thesis
    by blast
qed

text \<open>
  C4. \<open>contrast_normalize\<close> raises its TypeError exactly when the input is not
  two-dimensional, and then returns no batch. (The check is the function's first
  statement.)
\<close>

theorem contrast_normalize_TypeError_iff:
  "(contrast_normalize cfg X = Inl TypeError) = (ndim X \<noteq> 2) \<and>
   (ndim X \<noteq> 2 \<longrightarrow> (\<forall>Y. contrast_normalize cfg X \<noteq> Inr Y))"
  by (auto simp: contrast_normalize_def cn_center_cases)

theorem contrast_normalize_TypeError_iff_witness:
  "ndim (NDArray [3] [1, 2, 3]) \<noteq> 2 \<and>
   contrast_normalize notebook_config (NDArray [3] [1, 2, 3]) = Inl TypeError \<and>
   ndim (NDArray [1, 2] [1, 2]) = 2 \<and>
   contrast_normalize notebook_config (NDArray [1, 2] [1, 2]) \<noteq> Inl TypeError"
  using contrast_normalize_TypeError_iff [of notebook_config "NDArray [3] [1, 2, 3]"]
    contrast_normalize_TypeError_iff [of notebook_config "NDArray [1, 2] [1, 2]"]
  by (simp add: ndim_def)

text \<open>
  C5. The last statement divides the centered batch by \<open>np.sqrt(div2)\<close>. With
  \<open>hard_beta\<close> and \<open>beta > 0\<close> every \<open>div2[i]\<close> is at least \<open>beta\<close> and every divisor
  is positive, whatever the rows are; with \<open>hard_beta\<close> off and \<open>beta = 0\<close> the divisor
  of an all-zero row is 0. (When the centering raises, nothing is divided.)
\<close>

theorem contrast_normalize_divisor:
  assumes "wf_array X" "cn_center cfg X = Inr Xc"
  shows "contrast_normalize cfg X = Inr (np_div_col Xc (np_sqrt (cn_div2 cfg (cn_l2 Xc)))) \<and>
    (hard_beta cfg \<and> 0 < beta cfg \<longrightarrow>
       (\<forall>i<nrows X. beta cfg \<le> at1 (cn_div2 cfg (cn_l2 Xc)) i \<and>
                     0 < at1 (np_sqrt (cn_div2 cfg (cn_l2 Xc))) i)) \<and>
    (\<not> hard_beta cfg \<and> beta cfg = 0 \<longrightarrow>
       (\<forall>i<nrows X. (\<forall>j<ncols X. at2 X i j = 0) \<longrightarrow>
                     at1 (np_sqrt (cn_div2 cfg (cn_l2 Xc))) i = 0))"
proof -
  have A: "contrast_normalize cfg X = Inr (np_div_col Xc (np_sqrt (cn_div2 cfg (cn_l2 Xc))))"
    using assms(2) by (simp add: contrast_normalize_def)
  have nr: "nrows Xc = nrows X" and nc: "ncols Xc = ncols X"
    using cn_center_shape [OF assms(2)] by simp_all
  have B: "beta cfg \<le> at1 (cn_div2 cfg (cn_l2 Xc)) i \<and>
      0 < at1 (np_sqrt (cn_div2 cfg (cn_l2 Xc))) i"
    if h: "hard_beta cfg \<and> 0 < beta cfg" and i: "i < nrows X" for i
  proof -
    have "beta cfg \<le> at1 (cn_div2 cfg (cn_l2 Xc)) i"
      using h i nr by (simp add: at1_cn_div2)
    then show ?thesis
      using h i nr by (simp add: np_sqrt_def)
  qed
  have C: "at1 (np_sqrt (cn_div2 cfg (cn_l2 Xc))) i = 0"
    if h: "\<not> hard_beta cfg \<and> beta cfg = 0" and i: "i < nrows X"
      and z: "\<forall>j<ncols X. at2 X i j = 0" for i
  proof -
    have s0: "(\<Sum>j\<leftarrow>[0..<ncols X]. at2 X i j) = 0"
      unfolding sum_list_upt using z by simp
    have Xc: "Xc = mk2 (nrows X) (ncols X) (\<lambda>i j. at2 X i j -
          (if remove_mean cfg then (\<Sum>j\<leftarrow>[0..<ncols X]. at2 X i j) / real (ncols X) else 0))"
      using assms(2) by (simp add: cn_center_cases split: if_splits)
    have "\<forall>j<ncols X. at2 Xc i j = 0"
      using z i s0 by (simp add: Xc)
    then have "row_sqnorm Xc i = 0"
      unfolding row_sqnorm_def sum_list_upt using nc by simp
    then show ?thesis
      using h i nr by (simp add: np_sqrt_def at1_cn_div2 at1_cn_l2)
  qed
  from A B C show ?thesis by blast
qed

theorem contrast_normalize_divisor_witness:
  "wf_array (NDArray [2, 2] [0, 0, 5, 4]) \<and>
   cn_center notebook_config (NDArray [2, 2] [0, 0, 5, 4]) =
     Inr (NDArray [2, 2] [0, 0, 1 / 2, - 1 / 2]) \<and>
   0 < at1 (np_sqrt (cn_div2 notebook_config (cn_l2 (NDArray [2, 2] [0, 0, 1 / 2, - 1 / 2])))) 0 \<and>
   cn_center (notebook_config\<lparr>hard_beta := False, beta := 0\<rparr>) (NDArray [2, 2] [0, 0, 5, 4]) =
     Inr (NDArray [2, 2] [0, 0, 1 / 2, - 1 / 2]) \<and>
   at1 (np_sqrt (cn_div2 (notebook_config\<lparr>hard_beta := False, beta := 0\<rparr>)
         (cn_l2 (NDArray [2, 2] [0, 0, 1 / 2, - 1 / 2])))) 0 = 0"
proof -
  let ?X = "NDArray [2, 2] [0, 0, 5, 4]"
  let ?Xc = "NDArray [2, 2] [0, 0, 1 / 2, - 1 / 2]"
  let ?s = "notebook_config\<lparr>hard_beta := False, beta := 0\<rparr>"
  have w: "wf_array ?X"
    by (simp add: np_defs)
  have c: "cn_center notebook_config ?X = Inr ?Xc"
    by (simp add: cn_defs np_defs notebook_config_def upt_small)
  have c': "cn_center ?s ?X = Inr ?Xc"
    using c by simp
  have n: "0 < nrows ?X" "hard_beta notebook_config \<and> 0 < beta notebook_config"
    "\<not> hard_beta ?s \<and> beta ?s = 0" "\<forall>j<ncols ?X. at2 ?X 0 j = 0"
    by (simp_all add: np_defs notebook_config_def less_Suc_eq numeral_2_eq_2)
  from contrast_normalize_divisor [OF w c] contrast_normalize_divisor [OF w c'] n w c c'
  show ?thesis by blast
qed

text \<open>
  C7, as amended. For \<open>beta > 0\<close>, the outputs under \<open>hard_beta\<close> on and off agree on
  a row exactly when its centered squared L2 norm is 0; every other row differs, also
  the rows with squared norm at least \<open>beta\<close>. On such a row the output with
  \<open>hard_beta\<close> is the centered row over the square root of its squared norm, whatever
  \<open>beta\<close> is, and the output without is the centered row over the square root of the
  squared norm plus \<open>beta\<close>, which tends to the former as \<open>beta\<close> tends to 0.
\<close>

theorem hard_soft_rows:
  assumes "wf_array X" "0 < beta cfg" "cn_center cfg X = Inr Xc" "i < nrows X"
  shows "\<exists>H S. contrast_normalize (cfg\<lparr>hard_beta := True\<rparr>) X = Inr H \<and>
               contrast_normalize (cfg\<lparr>hard_beta := False\<rparr>) X = Inr S \<and>
     ((\<forall>j<ncols X. at2 H i j = at2 S i j) \<longleftrightarrow> row_sqnorm Xc i = 0) \<and>
     (beta cfg \<le> row_sqnorm Xc i \<longrightarrow>
        (\<forall>j<ncols X. at2 H i j = at2 Xc i j / sqrt (row_sqnorm Xc i) \<and>
                      at2 S i j = at2 Xc i j / sqrt (row_sqnorm Xc i + beta cfg))) \<and>
     (0 < row_sqnorm Xc i \<longrightarrow>
        (\<forall>j<ncols X.
           ((\<lambda>b. at2 (projr (contrast_normalize (cfg\<lparr>hard_beta := False, beta := b\<rparr>) X)) i j)
              \<longlongrightarrow> at2 Xc i j / sqrt (row_sqnorm Xc i)) (at_right 0)))"
proof -
  let ?l = "row_sqnorm Xc i"
  have nr: "nrows Xc = nrows X" and nc: "ncols Xc = ncols X"
    using cn_center_shape [OF assms(3)] by simp_all
  have cH: "cn_center (cfg\<lparr>hard_beta := True\<rparr>) X = Inr Xc"
    and cS: "cn_center (cfg\<lparr>hard_beta := False\<rparr>) X = Inr Xc"
    using assms(3) by simp_all
  obtain H where H: "contrast_normalize (cfg\<lparr>hard_beta := True\<rparr>) X = Inr H"
    using contrast_normalize_Inr [OF cH] by blast
  obtain S where S: "contrast_normalize (cfg\<lparr>hard_beta := False\<rparr>) X = Inr S"
    using contrast_normalize_Inr [OF cS] by blast
  have eH: "at2 H i j = at2 Xc i j / sqrt (max ?l (beta cfg))" if "j < ncols X" for j
    using at2_contrast_normalize [OF cH assms(4) that] H by simp
  have eS: "at2 S i j = at2 Xc i j / sqrt (?l + beta cfg)" if "j < ncols X" for j
    using at2_contrast_normalize [OF cS assms(4) that] S by simp
  have l0: "0 \<le> ?l"
    by (rule row_sqnorm_nonneg)
  have iff: "(\<forall>j<ncols X. at2 H i j = at2 S i j) \<longleftrightarrow> ?l = 0"
  proof
    assume eq: "\<forall>j<ncols X. at2 H i j = at2 S i j"
    show "?l = 0"
    proof (rule ccontr)
      assume "?l \<noteq> 0"
      then obtain j where j: "j < ncols X" "at2 Xc i j \<noteq> 0"
        using row_sqnorm_zero_iff [of Xc i] nc by auto
      have lp: "0 < ?l"
        using l0 \<open>?l \<noteq> 0\<close> by simp
      have "at2 Xc i j / sqrt (max ?l (beta cfg)) = at2 Xc i j / sqrt (?l + beta cfg)"
        using eq j(1) eH eS by simp
      then have "sqrt (max ?l (beta cfg)) = sqrt (?l + beta cfg)"
        using j(2) lp assms(2) by (simp add: field_simps)
      then have "max ?l (beta cfg) = ?l + beta cfg"
        by simp
      with lp assms(2) show False
        by (simp add: max_def split: if_splits)
    qed
  next
    assume "?l = 0"
    then have "\<forall>j<ncols X. at2 Xc i j = 0"
      using row_sqnorm_zero_iff [of Xc i] nc by simp
    then show "\<forall>j<ncols X. at2 H i j = at2 S i j"
      using eH eS by simp
  qed
  have ge: "\<forall>j<ncols X. at2 H i j = at2 Xc i j / sqrt ?l \<and>
                     at2 S i j = at2 Xc i j / sqrt (?l + beta cfg)"
    if "beta cfg \<le> ?l"
    using that eH eS by (simp add: max_def)
  have lim: "((\<lambda>b. at2 (projr (contrast_normalize (cfg\<lparr>hard_beta := False, beta := b\<rparr>) X)) i j)
              \<longlongrightarrow> at2 Xc i j / sqrt ?l) (at_right 0)"
    if "0 < ?l" "j < ncols X" for j
  proof -
    have "at2 (projr (contrast_normalize (cfg\<lparr>hard_beta := False, beta := b\<rparr>) X)) i j
        = at2 Xc i j / sqrt (?l + b)" for b
    proof -
      have "cn_center (cfg\<lparr>hard_beta := False, beta := b\<rparr>) X = Inr Xc"
        using assms(3) by simp
      from at2_contrast_normalize [OF this assms(4) that(2)] show ?thesis
        by simp
    qed
    then show ?thesis
      using soft_limit [OF that(1)] by simp
  qed
  from H S iff ge lim show ?thesis by blast
qed

theorem hard_soft_rows_witness:
  "wf_array (NDArray [1, 4] [3, 3, -1, -1]) \<and>
   0 < beta \<lparr>remove_mean = True, hard_beta = True, beta = 9, gamma = 1 / 100\<rparr> \<and>
   cn_center \<lparr>remove_mean = True, hard_beta = True, beta = 9, gamma = 1 / 100\<rparr>
     (NDArray [1, 4] [3, 3, -1, -1]) = Inr (NDArray [1, 4] [2, 2, -2, -2]) \<and>
   0 < nrows (NDArray [1, 4] [3, 3, -1, -1]) \<and>
   row_sqnorm (NDArray [1, 4] [2, 2, -2, -2]) 0 = 16 \<and>
   (\<exists>H S.
     contrast_normalize \<lparr>remove_mean = True, hard_beta = True, beta = 9, gamma = 1 / 100\<rparr>
       (NDArray [1, 4] [3, 3, -1, -1]) = Inr H \<and>
     contrast_normalize \<lparr>remove_mean = True, hard_beta = False, beta = 9, gamma = 1 / 100\<rparr>
       (NDArray [1, 4] [3, 3, -1, -1]) = Inr S \<and>
     at2 H 0 0 = 2 / 4 \<and> at2 S 0 0 = 2 / 5)"
proof -
  let ?X = "NDArray [1, 4] [3, 3, -1, -1]"
  let ?Xc = "NDArray [1, 4] [2, 2, -2, -2]"
  let ?c = "\<lparr>remove_mean = True, hard_beta = True, beta = 9, gamma = 1 / 100\<rparr>"
  have w: "wf_array ?X" and b: "0 < beta ?c" and i: "0 < nrows ?X"
    by (simp_all add: np_defs)
  have c: "cn_center ?c ?X = Inr ?Xc"
    by (simp add: cn_defs np_defs upt_small)
  have l: "row_sqnorm ?Xc 0 = 16"
    by (simp add: np_defs upt_small)
  have j: "0 < ncols ?X" "beta ?c \<le> 16"
    by (simp_all add: np_defs)
  from hard_soft_rows [OF w b c i] obtain H S where
    HS: "contrast_normalize (?c\<lparr>hard_beta := True\<rparr>) ?X = Inr H"
      "contrast_normalize (?c\<lparr>hard_beta := False\<rparr>) ?X = Inr S"
      "beta ?c \<le> row_sqnorm ?Xc 0 \<longrightarrow>
        (\<forall>j<ncols ?X. at2 H 0 j = at2 ?Xc 0 j / sqrt (row_sqnorm ?Xc 0) \<and>
                      at2 S 0 j = at2 ?Xc 0 j / sqrt (row_sqnorm ?Xc 0 + beta ?c))"
    by blast
  from HS(3) j l have "at2 H 0 0 = at2 ?Xc 0 0 / sqrt 16 \<and> at2 S 0 0 = at2 ?Xc 0 0 / sqrt (16 + 9)"
    by simp
  then have "at2 H 0 0 = 2 / 4 \<and> at2 S 0 0 = 2 / 5"
    by (simp add: sqrt_16 sqrt_25 at2_def)
  with HS(1,2) w b c i l show ?thesis
    by auto
qed

text \<open>
  C7 as it is stated fails: a row whose centered squared L2 norm, 16, is at least
  \<open>beta = 9\<close> differs between the two settings.
\<close>

theorem hard_soft_differ_above_beta_counterexample:
  "contrast_normalize \<lparr>remove_mean = True, hard_beta = True, beta = 9, gamma = 1 / 100\<rparr>
     (NDArray [1, 4] [3, 3, -1, -1]) = Inr (NDArray [1, 4] [1 / 2, 1 / 2, - 1 / 2, - 1 / 2]) \<and>
   contrast_normalize \<lparr>remove_mean = True, hard_beta = False, beta = 9, gamma = 1 / 100\<rparr>
     (NDArray [1, 4] [3, 3, -1, -1]) = Inr (NDArray [1, 4] [2 / 5, 2 / 5, - 2 / 5, - 2 / 5]) \<and>
   cn_center \<lparr>remove_mean = True, hard_beta = True, beta = 9, gamma = 1 / 100\<rparr>
     (NDArray [1, 4] [3, 3, -1, -1]) = Inr (NDArray [1, 4] [2, 2, -2, -2]) \<and>
   at1 (cn_l2 (NDArray [1, 4] [2, 2, -2, -2])) 0 = 16 \<and>
   beta \<lparr>remove_mean = True, hard_beta = True, beta = 9, gamma = 1 / 100\<rparr> \<le> 16"
  by (simp add: cn_defs np_defs upt_small sqrt_16 sqrt_25)

text \<open>
  C9, as amended. For every two-dimensional batch with at least one column, or with
  \<open>remove_mean\<close> set, and every configuration, \<open>contrast_normalize\<close> returns a batch of
  the shape of its input.
\<close>

theorem contrast_normalize_shape:
  assumes "ndim X = 2" "remove_mean cfg \<or> 0 < ncols X"
  shows "\<exists>Y. contrast_normalize cfg X = Inr Y \<and> shape Y = shape X \<and> wf_array Y"
  using contrast_normalize_Inr [OF cn_center_Inr [OF assms]] shape_2d [OF assms(1)]
  by simp

theorem contrast_normalize_shape_witness:
  "ndim (NDArray [2, 3] [1, 2, 3, 4, 5, 6]) = 2 \<and>
   0 < ncols (NDArray [2, 3] [1, 2, 3, 4, 5, 6]) \<and>
   (\<exists>Y. contrast_normalize (notebook_config\<lparr>remove_mean := False\<rparr>)
          (NDArray [2, 3] [1, 2, 3, 4, 5, 6]) = Inr Y \<and>
        shape Y = [2, 3] \<and> wf_array Y)"
proof -
  let ?X = "NDArray [2, 3] [1, 2, 3, 4, 5, 6]"
  have d: "ndim ?X = 2" and c: "0 < ncols ?X"
    by (simp_all add: np_defs)
  from c have "remove_mean (notebook_config\<lparr>remove_mean := False\<rparr>) \<or> 0 < ncols ?X" ..
  from contrast_normalize_shape [OF d this] d c show ?thesis
    by simp
qed

text \<open>
  C9 as it is stated fails on a batch of shape \<open>(3, 0)\<close> when \<open>remove_mean\<close> is off:
  the call raises an IndexError and returns no batch of any shape.
\<close>

theorem contrast_normalize_shape_counterexample:
  "contrast_normalize \<lparr>remove_mean = False, hard_beta = False, beta = 10, gamma = 1 / 100\<rparr>
     (NDArray [3, 0] []) = Inl IndexError \<and>
   wf_array (NDArray [3, 0] []) \<and> ndim (NDArray [3, 0] []) = 2"
  by (simp add: cn_defs np_defs)

text \<open>
  C10. For every two-dimensional batch and every \<open>beta > 0\<close>, whatever the two flags
  are, every row of the batch that \<open>contrast_normalize\<close> returns has squared L2 norm at
  most 1; and it returns one unless \<open>remove_mean\<close> is off and the batch has no column.
\<close>

theorem contrast_normalize_row_norm_le_1:
  assumes "wf_array X" "ndim X = 2" "0 < beta cfg"
  shows "(remove_mean cfg \<or> 0 < ncols X \<longrightarrow> (\<exists>Y. contrast_normalize cfg X = Inr Y)) \<and>
         (\<forall>Y. contrast_normalize cfg X = Inr Y \<longrightarrow> (\<forall>i<nrows X. row_sqnorm Y i \<le> 1))"
proof (intro conjI impI allI)
  assume "remove_mean cfg \<or> 0 < ncols X"
  then show "\<exists>Y. contrast_normalize cfg X = Inr Y"
    using contrast_normalize_Inr [OF cn_center_Inr [OF assms(2)]] by blast
next
  fix Y i
  assume Y: "contrast_normalize cfg X = Inr Y" and i: "i < nrows X"
  obtain Xc where Xc: "cn_center cfg X = Inr Xc"
    using Y by (cases "cn_center cfg X") (simp_all add: contrast_normalize_def)
  have n: "i < nrows Xc"
    using i cn_center_shape(2) [OF Xc] by simp
  from cn_row_sqnorm [OF Xc i assms(3)] Y
  have "row_sqnorm Y i = row_sqnorm Xc i / at1 (cn_div2 cfg (cn_l2 Xc)) i"
    by auto
  with div2_lower [OF n assms(3)] show "row_sqnorm Y i \<le> 1"
    by simp
qed

theorem contrast_normalize_row_norm_le_1_witness:
  "wf_array (NDArray [2, 4] [3, 3, -1, -1, 2, 2, 0, 0]) \<and>
   ndim (NDArray [2, 4] [3, 3, -1, -1, 2, 2, 0, 0]) = 2 \<and>
   0 < beta \<lparr>remove_mean = True, hard_beta = False, beta = 9, gamma = 1 / 100\<rparr> \<and>
   contrast_normalize \<lparr>remove_mean = True, hard_beta = False, beta = 9, gamma = 1 / 100\<rparr>
     (NDArray [2, 4] [3, 3, -1, -1, 2, 2, 0, 0]) =
     Inr (NDArray [2, 4] [2 / 5, 2 / 5, - 2 / 5, - 2 / 5,
       1 / sqrt 13, 1 / sqrt 13, - 1 / sqrt 13, - 1 / sqrt 13]) \<and>
   row_sqnorm (NDArray [2, 4] [2 / 5, 2 / 5, - 2 / 5, - 2 / 5,
       1 / sqrt 13, 1 / sqrt 13, - 1 / sqrt 13, - 1 / sqrt 13]) 0 \<le> 1 \<and>
   row_sqnorm (NDArray [2, 4] [2 / 5, 2 / 5, - 2 / 5, - 2 / 5,
       1 / sqrt 13, 1 / sqrt 13, - 1 / sqrt 13, - 1 / sqrt 13]) 1 \<le> 1"
proof -
  let ?X = "NDArray [2, 4] [3, 3, -1, -1, 2, 2, 0, 0]"
  let ?Y = "NDArray [2, 4] [2 / 5, 2 / 5, - 2 / 5, - 2 / 5,
       1 / sqrt 13, 1 / sqrt 13, - 1 / sqrt 13, - 1 / sqrt 13]"
  let ?c = "\<lparr>remove_mean = True, hard_beta = False, beta = 9, gamma = 1 / 100\<rparr>"
  have w: "wf_array ?X" and d: "ndim ?X = 2" and b: "0 < beta ?c"
    and n: "0 < nrows ?X" "1 < nrows ?X"
    by (simp_all add: np_defs)
  have e: "contrast_normalize ?c ?X = Inr ?Y"
    by (simp add: cn_defs np_defs upt_small sqrt_25)
  from contrast_normalize_row_norm_le_1 [OF w d b] e n
  have "row_sqnorm ?Y 0 \<le> 1 \<and> row_sqnorm ?Y 1 \<le> 1"
    by blast
  with w d b e show ?thesis
    by blast
qed

section \<open>ZCA whitening: the claims\<close>

text \<open>
  C2. For every normalized batch and every \<open>gamma > 0\<close>, when \<open>eigh\<close> returns the
  eigenvalues \<open>lambda\<close> and the eigenvectors \<open>V\<close> for the sample covariance, the fit
  returns the whitening matrix \<open>P = V diag(1 / sqrt (lambda + gamma)) V\<^sup>T\<close>, and \<open>P\<close>
  is symmetric. When moreover the batch has at least two patches and \<open>eigh\<close> returns an
  eigendecomposition, every \<open>lambda + gamma\<close> is positive, so that nothing is divided
  by zero. (With a single patch the code's covariance is 0 / 0.)
\<close>

theorem zca_P_refines_spec:
  assumes "wf_array X" "ndim X = 2" "0 < gamma cfg"
    and "eigh (zca_cov (np_sub_row X (mean_and_std_M X))) = Inr (D, V)"
    and "eigh_shapes (ncols X) (D, V)"
  shows "ZCA_fit eigh cfg X = Inr (mean_and_std_M X, spec_P (gamma cfg) D V, X) \<and>
         np_transpose (spec_P (gamma cfg) D V) = spec_P (gamma cfg) D V \<and>
         (2 \<le> nrows X \<and>
          eigh_contract (ncols X) (zca_cov (np_sub_row X (mean_and_std_M X))) (D, V) \<longrightarrow>
            (\<forall>k<ncols X. 0 < at1 D k + gamma cfg))"
proof -
  let ?M = "mean_and_std_M X"
  from assms(5) have sh: "shape D = [ncols X]" "shape V = [ncols X, ncols X]"
    by (simp_all add: eigh_shapes_def)
  have shm: "shape (np_sub_row X ?M) = [nrows X, ncols X]"
    using shape_np_sub_row [OF assms(2)] shape_2d [OF assms(2)] by simp
  have pos: "0 < at1 D k + gamma cfg"
    if "2 \<le> nrows X" "eigh_contract (ncols X) (zca_cov (np_sub_row X ?M)) (D, V)"
      "k < ncols X" for k
    using eigenvalue_nonneg [OF shm that] assms(3) by simp
  have "ZCA_fit eigh cfg X = Inr (?M, zca_P cfg D V, X)"
    using ZCA_fit_eq [OF assms(2), of eigh cfg] assms(4) by simp
  then show ?thesis
    using zca_P_spec [OF sh, of cfg] zca_P_symmetric [OF sh, of cfg] pos by simp
qed

theorem zca_P_refines_spec_witness:
  "wf_array (NDArray [3, 2] [1, 0, -1, 0, 0, 0]) \<and>
   ndim (NDArray [3, 2] [1, 0, -1, 0, 0, 0]) = 2 \<and>
   0 < gamma \<lparr>remove_mean = False, hard_beta = True, beta = 1, gamma = 9 / 16\<rparr> \<and>
   contrast_normalize \<lparr>remove_mean = False, hard_beta = True, beta = 1, gamma = 9 / 16\<rparr>
     (NDArray [3, 2] [1, 0, -1, 0, 0, 0]) = Inr (NDArray [3, 2] [1, 0, -1, 0, 0, 0]) \<and>
   zca_cov (np_sub_row (NDArray [3, 2] [1, 0, -1, 0, 0, 0])
     (mean_and_std_M (NDArray [3, 2] [1, 0, -1, 0, 0, 0]))) = NDArray [2, 2] [1, 0, 0, 0] \<and>
   eigh_shapes 2 (NDArray [2] [1, 0], NDArray [2, 2] [1, 0, 0, 1]) \<and>
   eigh_contract 2 (NDArray [2, 2] [1, 0, 0, 0]) (NDArray [2] [1, 0], NDArray [2, 2] [1, 0, 0, 1]) \<and>
   ZCA_fit (\<lambda>C. Inr (NDArray [2] [at2 C 0 0, at2 C 1 1], NDArray [2, 2] [1, 0, 0, 1]))
     \<lparr>remove_mean = False, hard_beta = True, beta = 1, gamma = 9 / 16\<rparr>
     (NDArray [3, 2] [1, 0, -1, 0, 0, 0]) =
   Inr (NDArray [2] [0, 0], NDArray [2, 2] [4 / 5, 0, 0, 4 / 3], NDArray [3, 2] [1, 0, -1, 0, 0, 0]) \<and>
   spec_P (9 / 16) (NDArray [2] [1, 0]) (NDArray [2, 2] [1, 0, 0, 1]) =
     NDArray [2, 2] [4 / 5, 0, 0, 4 / 3] \<and>
   np_transpose (NDArray [2, 2] [4 / 5, 0, 0, 4 / 3]) = NDArray [2, 2] [4 / 5, 0, 0, 4 / 3] \<and>
   0 < at1 (NDArray [2] [1, 0]) 1 +
       gamma \<lparr>remove_mean = False, hard_beta = True, beta = 1, gamma = 9 / 16\<rparr>"
proof -
  let ?X = "NDArray [3, 2] [1, 0, -1, 0, 0, 0]"
  let ?c = "\<lparr>remove_mean = False, hard_beta = True, beta = 1, gamma = 9 / 16\<rparr>"
  let ?e = "\<lambda>C. Inr (NDArray [2] [at2 C 0 0, at2 C 1 1], NDArray [2, 2] [1, 0, 0, 1])"
  let ?D = "NDArray [2] [1, 0]"
  let ?V = "NDArray [2, 2] [1, 0, 0, 1]"
  let ?P = "NDArray [2, 2] [4 / 5, 0, 0, 4 / 3]"
  have w: "wf_array ?X" and d: "ndim ?X = 2" and g: "0 < gamma ?c" and nc: "ncols ?X = 2"
    and n: "2 \<le> nrows ?X" and k: "1 < ncols ?X"
    by (simp_all add: np_defs)
  have N: "contrast_normalize ?c ?X = Inr ?X"
    by (simp add: cn_defs np_defs upt_small)
  have C: "zca_cov (np_sub_row ?X (mean_and_std_M ?X)) = NDArray [2, 2] [1, 0, 0, 0]"
    by (simp add: zca_defs np_defs upt_small)
  have e: "?e (zca_cov (np_sub_row ?X (mean_and_std_M ?X))) = Inr (?D, ?V)"
    unfolding C by (simp add: np_defs)
  have s2: "eigh_shapes 2 (?D, ?V)"
    by (simp add: eigh_shapes_def)
  have s: "eigh_shapes (ncols ?X) (?D, ?V)"
    unfolding nc by (rule s2)
  have E: "eigh_contract 2 (NDArray [2, 2] [1, 0, 0, 0]) (?D, ?V)"
    by (simp add: eigh_contract_def np_defs upt_small)
  have h6: "eigh_contract (ncols ?X) (zca_cov (np_sub_row ?X (mean_and_std_M ?X))) (?D, ?V)"
    unfolding nc C by (rule E)
  have P: "spec_P (9 / 16) ?D ?V = ?P"
    by (simp add: spec_P_def np_diag_def zca_defs np_defs upt_small real_sqrt_divide
        sqrt_9 sqrt_16 sqrt_25)
  have M: "mean_and_std_M ?X = NDArray [2] [0, 0]"
    by (simp add: zca_defs np_defs upt_small)
  have g1: "gamma ?c = 9 / 16"
    by simp
  note r = zca_P_refines_spec [of ?X ?c ?e ?D ?V, OF w d g e s]
  from r have r1: "ZCA_fit ?e ?c ?X = Inr (mean_and_std_M ?X, spec_P (gamma ?c) ?D ?V, ?X)"
    and r2: "np_transpose (spec_P (gamma ?c) ?D ?V) = spec_P (gamma ?c) ?D ?V"
    by blast+
  from r n h6 k have r3: "0 < at1 ?D 1 + gamma ?c"
    by blast
  from r1 r2 have "ZCA_fit ?e ?c ?X = Inr (NDArray [2] [0, 0], ?P, ?X)"
    and "np_transpose ?P = ?P"
    unfolding M g1 P by simp_all
  with r3 w d g N C s2 E P show ?thesis
    by simp
qed

text \<open>
  C6. When the sample covariance of the batch, with the \<open>N - 1\<close> divisor, is the
  identity matrix and \<open>eigh\<close> returns an eigendecomposition of it, the fit returns the
  identity matrix times \<open>1 / sqrt (1 + gamma)\<close> as whitening matrix, for every
  \<open>gamma > 0\<close>.
\<close>

theorem zca_identity_covariance:
  assumes "wf_array X" "ndim X = 2" "0 < gamma cfg"
    and "zca_cov (np_sub_row X (mean_and_std_M X)) = scaled_identity (ncols X) 1"
    and "eigh (zca_cov (np_sub_row X (mean_and_std_M X))) = Inr (D, V)"
    and "eigh_contract (ncols X) (zca_cov (np_sub_row X (mean_and_std_M X))) (D, V)"
  shows "ZCA_fit eigh cfg X =
     Inr (mean_and_std_M X, scaled_identity (ncols X) (1 / sqrt (1 + gamma cfg)), X)"
  using ZCA_fit_eq [OF assms(2), of eigh cfg] assms(5) zca_P_identity [OF assms(4,6), of cfg]
  by simp

theorem zca_identity_covariance_witness:
  "wf_array (NDArray [3, 1] [1, -1, 0]) \<and>
   ndim (NDArray [3, 1] [1, -1, 0]) = 2 \<and>
   0 < gamma \<lparr>remove_mean = False, hard_beta = True, beta = 1, gamma = 3\<rparr> \<and>
   contrast_normalize \<lparr>remove_mean = False, hard_beta = True, beta = 1, gamma = 3\<rparr>
     (NDArray [3, 1] [1, -1, 0]) = Inr (NDArray [3, 1] [1, -1, 0]) \<and>
   zca_cov (np_sub_row (NDArray [3, 1] [1, -1, 0]) (mean_and_std_M (NDArray [3, 1] [1, -1, 0]))) =
     NDArray [1, 1] [1] \<and>
   scaled_identity 1 1 = NDArray [1, 1] [1] \<and>
   eigh_contract 1 (NDArray [1, 1] [1]) (NDArray [1] [1], NDArray [1, 1] [1]) \<and>
   ZCA_fit (\<lambda>C. Inr (NDArray [1] [at2 C 0 0], NDArray [1, 1] [1]))
     \<lparr>remove_mean = False, hard_beta = True, beta = 1, gamma = 3\<rparr>
     (NDArray [3, 1] [1, -1, 0]) =
   Inr (NDArray [1] [0], NDArray [1, 1] [1 / 2], NDArray [3, 1] [1, -1, 0])"
proof -
  let ?X = "NDArray [3, 1] [1, -1, 0]"
  let ?c = "\<lparr>remove_mean = False, hard_beta = True, beta = 1, gamma = 3\<rparr>"
  let ?e = "\<lambda>C. Inr (NDArray [1] [at2 C 0 0], NDArray [1, 1] [1])"
  let ?D = "NDArray [1] [1]"
  let ?V = "NDArray [1, 1] [1]"
  have w: "wf_array ?X" and d: "ndim ?X = 2" and g: "0 < gamma ?c" and nc: "ncols ?X = 1"
    by (simp_all add: np_defs)
  have N: "contrast_normalize ?c ?X = Inr ?X"
    by (simp add: cn_defs np_defs upt_small)
  have C: "zca_cov (np_sub_row ?X (mean_and_std_M ?X)) = NDArray [1, 1] [1]"
    by (simp add: zca_defs np_defs upt_small)
  have I: "scaled_identity 1 1 = NDArray [1, 1] [1]"
    by (simp add: scaled_identity_def np_defs upt_small)
  have h4: "zca_cov (np_sub_row ?X (mean_and_std_M ?X)) = scaled_identity (ncols ?X) 1"
    unfolding nc I by (rule C)
  have e: "?e (zca_cov (np_sub_row ?X (mean_and_std_M ?X))) = Inr (?D, ?V)"
    unfolding C by (simp add: np_defs)
  have E: "eigh_contract 1 (NDArray [1, 1] [1]) (?D, ?V)"
    by (simp add: eigh_contract_def np_defs upt_small)
  have h6: "eigh_contract (ncols ?X) (zca_cov (np_sub_row ?X (mean_and_std_M ?X))) (?D, ?V)"
    unfolding nc C by (rule E)
  have M: "mean_and_std_M ?X = NDArray [1] [0]"
    by (simp add: zca_defs np_defs upt_small)
  have S: "scaled_identity 1 (1 / sqrt (1 + 3)) = NDArray [1, 1] [1 / 2]"
    by (simp add: scaled_identity_def np_defs upt_small)
  from zca_identity_covariance [of ?X ?c ?e ?D ?V, OF w d g h4 e h6] M S nc w d g N C I E
  show ?thesis
    by simp
qed

text \<open>
  C8, as amended. For every batch of \<open>N \<ge> 1\<close> patches with \<open>D\<close> features each
  (\<open>D \<ge> 1\<close>, or \<open>remove_mean\<close> set) and positive \<open>beta\<close> and \<open>gamma\<close>, \<open>ZCA_whiten\<close>
  returns, unless \<open>eigh\<close> raises, exactly the triple \<open>(M, P, X)\<close>: \<open>X\<close> is the
  contrast-normalized batch, of shape \<open>(N, D)\<close>, \<open>M\<close> is its feature-wise mean, a
  one-dimensional array of length \<open>D\<close>, and \<open>P\<close> is the whitening matrix computed
  from what \<open>eigh\<close> returns for the covariance; when \<open>eigh\<close> raises, \<open>ZCA_whiten\<close>
  raises the same error.
\<close>

theorem ZCA_whiten_returns_triple:
  assumes "wf_array patches" "shape patches = n # rest" "0 < n"
    and "remove_mean cfg \<or> 0 < prod_list rest" "0 < beta cfg" "0 < gamma cfg"
  shows "\<exists>M X. contrast_normalize cfg (NDArray [n, prod_list rest] (flat patches)) = Inr X \<and>
     shape X = [n, prod_list rest] \<and>
     M = mean_and_std_M X \<and> ndim M = 1 \<and> shape M = [prod_list rest] \<and>
     (\<forall>j<prod_list rest. at1 M j = (\<Sum>i\<leftarrow>[0..<n]. at2 X i j) / real n) \<and>
     ZCA_whiten eigh cfg patches =
       (case eigh (zca_cov (np_sub_row X M)) of
          Inl e \<Rightarrow> Inl e
        | Inr (D, V) \<Rightarrow> Inr (M, zca_P cfg D V, X)) \<and>
     (\<forall>D V. eigh (zca_cov (np_sub_row X M)) = Inr (D, V) \<longrightarrow>
        ZCA_whiten eigh cfg patches = Inr (M, zca_P cfg D V, X))"
proof -
  let ?X0 = "NDArray [n, prod_list rest] (flat patches)"
  have len: "length (flat patches) div n = prod_list rest"
    using assms(1,2,3) by (simp add: wf_array_def)
  have r: "np_reshape_rows patches = Inr ?X0"
    using assms(2,3) len by (simp add: np_reshape_rows_def)
  have d0: "ndim ?X0 = 2" and c0: "remove_mean cfg \<or> 0 < ncols ?X0"
    using assms(4) by (simp_all add: ndim_def ncols_def)
  from contrast_normalize_Inr [OF cn_center_Inr [OF d0 c0]]
  obtain X where X: "contrast_normalize cfg ?X0 = Inr X" "shape X = [n, prod_list rest]"
    by (simp add: nrows_def ncols_def)
  have d: "ndim X = 2" and nr: "nrows X = n" and nc: "ncols X = prod_list rest"
    using X(2) by (simp_all add: ndim_def nrows_def ncols_def)
  let ?M = "mean_and_std_M X"
  have Z: "ZCA_whiten eigh cfg patches =
      (case eigh (zca_cov (np_sub_row X ?M)) of
         Inl e \<Rightarrow> Inl e
       | Inr (D, V) \<Rightarrow> Inr (?M, zca_P cfg D V, X))"
    using r X(1) ZCA_fit_eq [OF d, of eigh cfg] by (simp add: ZCA_whiten_def)
  have ret: "ZCA_whiten eigh cfg patches = Inr (?M, zca_P cfg D V, X)"
    if "eigh (zca_cov (np_sub_row X ?M)) = Inr (D, V)" for D V
    unfolding Z using that by simp
  have mean: "\<forall>j<prod_list rest. at1 ?M j = (\<Sum>i\<leftarrow>[0..<n]. at2 X i j) / real n"
    using nr nc by (simp add: mean_and_std_M_def)
  have "ndim ?M = 1" "shape ?M = [prod_list rest]"
    using nc by simp_all
  with X Z ret mean show ?thesis
    by blast
qed

theorem ZCA_whiten_returns_triple_witness:
  "wf_array (NDArray [4, 2] [1, 0, -1, 0, 0, 1, 0, -1]) \<and>
   shape (NDArray [4, 2] [1, 0, -1, 0, 0, 1, 0, -1]) = [4, 2] \<and>
   (0::nat) < 4 \<and> 0 < prod_list [2::nat] \<and>
   0 < beta \<lparr>remove_mean = False, hard_beta = True, beta = 1, gamma = 1 / 3\<rparr> \<and>
   0 < gamma \<lparr>remove_mean = False, hard_beta = True, beta = 1, gamma = 1 / 3\<rparr> \<and>
   (\<exists>M X.
      ZCA_whiten (\<lambda>C. Inr (NDArray [2] [at2 C 0 0, at2 C 1 1], NDArray [2, 2] [1, 0, 0, 1]))
        \<lparr>remove_mean = False, hard_beta = True, beta = 1, gamma = 1 / 3\<rparr>
        (NDArray [4, 2] [1, 0, -1, 0, 0, 1, 0, -1]) =
      Inr (M, zca_P \<lparr>remove_mean = False, hard_beta = True, beta = 1, gamma = 1 / 3\<rparr>
                (NDArray [2] [at2 (zca_cov (np_sub_row X M)) 0 0, at2 (zca_cov (np_sub_row X M)) 1 1])
                (NDArray [2, 2] [1, 0, 0, 1]), X) \<and>
      shape X = [4, 2] \<and> shape M = [2]) \<and>
   wf_array (NDArray [1, 2] [1, 0]) \<and> shape (NDArray [1, 2] [1, 0]) = [1, 2] \<and> (0::nat) < 1 \<and>
   (\<exists>M X.
      ZCA_whiten (\<lambda>C. Inr (NDArray [2] [at2 C 0 0, at2 C 1 1], NDArray [2, 2] [1, 0, 0, 1]))
        \<lparr>remove_mean = False, hard_beta = True, beta = 1, gamma = 1 / 3\<rparr>
        (NDArray [1, 2] [1, 0]) =
      Inr (M, zca_P \<lparr>remove_mean = False, hard_beta = True, beta = 1, gamma = 1 / 3\<rparr>
                (NDArray [2] [at2 (zca_cov (np_sub_row X M)) 0 0, at2 (zca_cov (np_sub_row X M)) 1 1])
                (NDArray [2, 2] [1, 0, 0, 1]), X) \<and>
      shape X = [1, 2] \<and> shape M = [2])"
proof -
  let ?A = "NDArray [4, 2] [1, 0, -1, 0, 0, 1, 0, -1]"
  let ?B = "NDArray [1, 2] [1, 0]"
  let ?c = "\<lparr>remove_mean = False, hard_beta = True, beta = 1, gamma = 1 / 3\<rparr>"
  let ?e = "\<lambda>C. Inr (NDArray [2] [at2 C 0 0, at2 C 1 1], NDArray [2, 2] [1, 0, 0, 1])"
  have w: "wf_array ?A" and s: "shape ?A = [4, 2]" and n: "(0::nat) < 4"
    and p: "0 < prod_list [2::nat]" and b: "0 < beta ?c" and g: "0 < gamma ?c"
    and w1: "wf_array ?B" and s1: "shape ?B = [1, 2]" and n1: "(0::nat) < 1"
    by (simp_all add: np_defs)
  from p have p': "remove_mean ?c \<or> 0 < prod_list [2::nat]" ..
  have A: "\<exists>M X. ZCA_whiten ?e ?c ?A =
      Inr (M, zca_P ?c
                (NDArray [2] [at2 (zca_cov (np_sub_row X M)) 0 0, at2 (zca_cov (np_sub_row X M)) 1 1])
                (NDArray [2, 2] [1, 0, 0, 1]), X) \<and>
      shape X = [4, 2] \<and> shape M = [2]"
    using ZCA_whiten_returns_triple [of ?A 4 "[2]" ?c ?e, OF w s n p' b g] by auto
  have B: "\<exists>M X. ZCA_whiten ?e ?c ?B =
      Inr (M, zca_P ?c
                (NDArray [2] [at2 (zca_cov (np_sub_row X M)) 0 0, at2 (zca_cov (np_sub_row X M)) 1 1])
                (NDArray [2, 2] [1, 0, 0, 1]), X) \<and>
      shape X = [1, 2] \<and> shape M = [2]"
    using ZCA_whiten_returns_triple [of ?B 1 "[2]" ?c ?e, OF w1 s1 n1 p' b g] by auto
  from A B w s n p b g w1 s1 n1 show ?thesis
    by blast
qed

text \<open>
  C8 as it is stated fails: the function returns three arrays, the third being the
  normalized batch, so that two batches with the same mean vector and whitening matrix
  give different results; and it returns nothing on a batch without patches, where
  \<open>reshape\<close> raises a ValueError, nor on a batch without features when \<open>remove_mean\<close>
  is off, where \<open>X[:, 0]\<close> raises an IndexError.
\<close>

theorem ZCA_whiten_returns_pair_counterexample:
  "ZCA_whiten (\<lambda>C. Inr (NDArray [2] [at2 C 0 0, at2 C 1 1], NDArray [2, 2] [1, 0, 0, 1]))
     \<lparr>remove_mean = False, hard_beta = True, beta = 1, gamma = 1 / 3\<rparr>
     (NDArray [4, 2] [1, 0, -1, 0, 0, 1, 0, -1]) =
   Inr (NDArray [2] [0, 0], NDArray [2, 2] [1, 0, 0, 1],
        NDArray [4, 2] [1, 0, -1, 0, 0, 1, 0, -1]) \<and>
   ZCA_whiten (\<lambda>C. Inr (NDArray [2] [at2 C 0 0, at2 C 1 1], NDArray [2, 2] [1, 0, 0, 1]))
     \<lparr>remove_mean = False, hard_beta = True, beta = 1, gamma = 1 / 3\<rparr>
     (NDArray [4, 2] [0, 1, 0, -1, 1, 0, -1, 0]) =
   Inr (NDArray [2] [0, 0], NDArray [2, 2] [1, 0, 0, 1],
        NDArray [4, 2] [0, 1, 0, -1, 1, 0, -1, 0]) \<and>
   ZCA_whiten (\<lambda>C. Inr (NDArray [2] [at2 C 0 0, at2 C 1 1], NDArray [2, 2] [1, 0, 0, 1]))
     \<lparr>remove_mean = False, hard_beta = True, beta = 1, gamma = 1 / 3\<rparr>
     (NDArray [0, 2] []) = Inl ValueError \<and>
   ZCA_whiten (\<lambda>C. Inr (NDArray [2] [at2 C 0 0, at2 C 1 1], NDArray [2, 2] [1, 0, 0, 1]))
     \<lparr>remove_mean = False, hard_beta = True, beta = 1, gamma = 1 / 3\<rparr>
     (NDArray [4, 0] []) = Inl IndexError"
  by (simp add: zca_defs cn_defs np_defs upt_small)

end
